theory Spec2Isabelle
  imports Main
begin

section \<open>The demo integration: data model\<close>

text \<open>
  The show pool of \<^verbatim>\<open>const.py\<close>, in the order of the source.
\<close>

definition TV_SHOWS :: "string list" where
  "TV_SHOWS =
    [''Breaking Bad'',
     ''The Wire'',
     ''Game of Thrones'',
     ''The Sopranos'',
     ''Mad Men'',
     ''The Office'',
     ''Friends'',
     ''Seinfeld'',
     ''Stranger Things'',
     ''The Mandalorian'',
     ''Ted Lasso'',
     ''Succession'',
     ''Better Call Saul'',
     ''The Crown'',
     ''Chernobyl'',
     ''Fleabag'',
     ''Black Mirror'',
     ''Fargo'',
     ''True Detective'',
     ''Westworld'']"

text \<open>
  The dataclass \<^verbatim>\<open>DemoConfig\<close> of \<^verbatim>\<open>const.py\<close>; its field
  \<^verbatim>\<open>identifier\<close> is \<open>device_identifier\<close> here (the plain name is reserved).
\<close>

record DemoConfig =
  device_identifier :: string
  name :: string
  address :: string

text \<open>
  The members of \<^verbatim>\<open>media_player.States\<close> that the device assigns to
  \<^verbatim>\<open>_power_state\<close>: no other member is ever stored there.
\<close>

datatype States = OFF | ON | PLAYING | PAUSED

text \<open>
  The fields of \<^verbatim>\<open>MediaPlayerAttributes\<close> that the constructor of the device
  sets.
\<close>

record MediaPlayerAttributes =
  STATE :: States
  MEDIA_TITLE :: string
  MEDIA_IMAGE_URL :: string

text \<open>
  One call of \<^verbatim>\<open>self.events.emit(DeviceEvents.UPDATE, entity_id, attributes)\<close>:
  the device identifier the entity id is built from, and the two entries
  \<^verbatim>\<open>STATE\<close> and \<^verbatim>\<open>MEDIA_TITLE\<close> of the emitted dictionary.
\<close>

datatype event = UPDATE string States string

text \<open>
  The device object: its configuration, the two private fields, the attribute
  snapshot, and the events it has emitted so far (oldest first).
\<close>

record DemoDevice =
  device_config :: DemoConfig
  power_state :: States
  media_title :: string
  attributes :: MediaPlayerAttributes
  events :: "event list"

text \<open>
  The only exception the device's own code can raise: \<^verbatim>\<open>random.choice\<close>
  on an empty sequence.
\<close>

datatype error = IndexError

text \<open>
  A method of the device runs on the object and either completes (\<open>None\<close>)
  or raises (\<open>Some e\<close>); in both cases the object is left as the
  assignments executed so far made it.
\<close>

type_synonym 'e outcome = "'e option \<times> DemoDevice"

definition and_then :: "error outcome \<Rightarrow> (DemoDevice \<Rightarrow> error outcome) \<Rightarrow> error outcome" where
  "and_then m f = (case m of (Some e, s) \<Rightarrow> (Some e, s) | (None, s) \<Rightarrow> f s)"

section \<open>The device\<close>

text \<open>\<^verbatim>\<open>DemoDevice.__init__\<close>: the state of a freshly constructed device.\<close>

definition init_device :: "DemoConfig \<Rightarrow> DemoDevice" where
  "init_device device_cfg =
    \<lparr>device_config = device_cfg,
     power_state = OFF,
     media_title = [],
     attributes =
       \<lparr>STATE = OFF,
        MEDIA_TITLE = [],
        MEDIA_IMAGE_URL = ''https://avatars.githubusercontent.com/u/102359576?s=200&v=4''\<rparr>,
     events = []\<rparr>"

text \<open>
  \<^verbatim>\<open>random.choice(seq)\<close>: IndexError on an empty sequence, otherwise the element
  at a random index below the length. The random source is the argument \<open>r\<close>, any
  natural number, reduced to an index.
\<close>

definition random_choice :: "nat \<Rightarrow> 'a list \<Rightarrow> error + 'a" where
  "random_choice r xs = (if xs = [] then Inl IndexError else Inr (xs ! (r mod length xs)))"

text \<open>
  \<^verbatim>\<open>_select_random_show\<close>. The module constant \<^verbatim>\<open>TV_SHOWS\<close> it reads is the
  argument \<open>tv_shows\<close>.
\<close>

definition select_random_show :: "string list \<Rightarrow> nat \<Rightarrow> DemoDevice \<Rightarrow> error outcome" where
  "select_random_show tv_shows r s =
    (let available_shows = filter (\<lambda>sh. sh \<noteq> media_title s) tv_shows
     in case random_choice r available_shows of
          Inl e \<Rightarrow> (Some e, s)
        | Inr t \<Rightarrow> (None, s\<lparr>media_title := t\<rparr>))"

text \<open>
  The two assignments \<^verbatim>\<open>self.attributes.STATE = self._power_state\<close> and
  \<^verbatim>\<open>self.attributes.MEDIA_TITLE = self._media_title\<close> that end every operation.
\<close>

definition set_attributes :: "DemoDevice \<Rightarrow> DemoDevice" where
  "set_attributes s =
    s\<lparr>attributes := (attributes s)\<lparr>STATE := power_state s, MEDIA_TITLE := media_title s\<rparr>\<rparr>"

text \<open>\<^verbatim>\<open>_emit_state_update\<close>.\<close>

definition emit_state_update :: "DemoDevice \<Rightarrow> DemoDevice" where
  "emit_state_update s =
    s\<lparr>events := events s @ [UPDATE (device_identifier (device_config s)) (power_state s) (media_title s)]\<rparr>"

definition establish_connection :: "string list \<Rightarrow> nat \<Rightarrow> DemoDevice \<Rightarrow> error outcome" where
  "establish_connection tv_shows r s =
    and_then (select_random_show tv_shows r (s\<lparr>power_state := ON\<rparr>))
      (\<lambda>s1. (None, set_attributes s1))"

definition poll_device :: "string list \<Rightarrow> nat \<Rightarrow> DemoDevice \<Rightarrow> error outcome" where
  "poll_device tv_shows r s =
    (if power_state s \<in> {ON, PLAYING} then
       and_then (select_random_show tv_shows r s)
         (\<lambda>s1. (None, emit_state_update (set_attributes s1)))
     else (None, s))"

definition power_on :: "string list \<Rightarrow> nat \<Rightarrow> DemoDevice \<Rightarrow> error outcome" where
  "power_on tv_shows r s =
    and_then (select_random_show tv_shows r (s\<lparr>power_state := ON\<rparr>))
      (\<lambda>s1. (None, set_attributes s1))"

definition power_off :: "DemoDevice \<Rightarrow> error outcome" where
  "power_off s = (None, set_attributes (s\<lparr>power_state := OFF, media_title := []\<rparr>))"

definition power_toggle :: "string list \<Rightarrow> nat \<Rightarrow> DemoDevice \<Rightarrow> error outcome" where
  "power_toggle tv_shows r s =
    (if power_state s \<in> {ON, PLAYING, PAUSED} then power_off s
     else power_on tv_shows r s)"

definition play_pause :: "string list \<Rightarrow> nat \<Rightarrow> DemoDevice \<Rightarrow> error outcome" where
  "play_pause tv_shows r s =
    and_then
      (if power_state s = OFF then
         and_then (power_on tv_shows r s) (\<lambda>s1. (None, s1\<lparr>power_state := PLAYING\<rparr>))
       else if power_state s = PAUSED then
         select_random_show tv_shows r (s\<lparr>power_state := PLAYING\<rparr>)
       else if power_state s \<in> {ON, PLAYING, PAUSED} then
         select_random_show tv_shows r
           (if power_state s = PLAYING then s\<lparr>power_state := PAUSED\<rparr>
            else s\<lparr>power_state := PLAYING\<rparr>)
       else (None, s))
      (\<lambda>s1. (None, set_attributes s1))"

text \<open>
  The operations the host framework invokes on a device, and a run of them. Each
  operation takes its own random draw; an operation that raises leaves the object
  as it is at that point, and the next one runs on it.
\<close>

datatype operation =
  EstablishConnection | PollTick | PowerOn | PowerOff | PowerToggle | PlayPause

fun run_operation :: "string list \<Rightarrow> operation \<Rightarrow> nat \<Rightarrow> DemoDevice \<Rightarrow> error outcome" where
  "run_operation tv_shows EstablishConnection r s = establish_connection tv_shows r s"
| "run_operation tv_shows PollTick r s = poll_device tv_shows r s"
| "run_operation tv_shows PowerOn r s = power_on tv_shows r s"
| "run_operation tv_shows PowerOff r s = power_off s"
| "run_operation tv_shows PowerToggle r s = power_toggle tv_shows r s"
| "run_operation tv_shows PlayPause r s = play_pause tv_shows r s"

fun run_operations :: "string list \<Rightarrow> (operation \<times> nat) list \<Rightarrow> DemoDevice \<Rightarrow> DemoDevice" where
  "run_operations tv_shows [] s = s"
| "run_operations tv_shows ((opn, r) # rest) s =
     run_operations tv_shows rest (snd (run_operation tv_shows opn r s))"

text \<open>The attribute snapshot shows the internal state.\<close>

definition snapshot_in_sync :: "DemoDevice \<Rightarrow> bool" where
  "snapshot_in_sync s \<longleftrightarrow>
     STATE (attributes s) = power_state s \<and> MEDIA_TITLE (attributes s) = media_title s"

text \<open>The title is empty exactly when the device is off.\<close>

definition title_empty_iff_off :: "DemoDevice \<Rightarrow> bool" where
  "title_empty_iff_off s \<longleftrightarrow> (media_title s = [] \<longleftrightarrow> power_state s = OFF)"

section \<open>The command dispatcher\<close>

text \<open>The members of \<^verbatim>\<open>ucapi.StatusCodes\<close> that \<^verbatim>\<open>handle_command\<close> returns.\<close>

datatype StatusCodes = OK | NOT_IMPLEMENTED | BAD_REQUEST

text \<open>
  The four members of the library enumeration \<^verbatim>\<open>media_player.Commands\<close> that
  \<^verbatim>\<open>handle_command\<close> matches on. Their string values are the library's, so they
  are a parameter of the dispatcher.
\<close>

record Commands =
  Commands_ON :: string
  Commands_OFF :: string
  Commands_TOGGLE :: string
  Commands_PLAY_PAUSE :: string

text \<open>
  The \<^verbatim>\<open>try\<close> statement around a device operation: falling out of the
  \<^verbatim>\<open>match\<close> returns OK, an exception is caught and gives BAD_REQUEST.
\<close>

definition try_command :: "error outcome \<Rightarrow> StatusCodes \<times> DemoDevice" where
  "try_command m = (case m of (None, s) \<Rightarrow> (OK, s) | (Some ex, s) \<Rightarrow> (BAD_REQUEST, s))"

definition handle_command ::
    "Commands \<Rightarrow> string list \<Rightarrow> string \<Rightarrow> nat \<Rightarrow> DemoDevice \<Rightarrow> StatusCodes \<times> DemoDevice" where
  "handle_command C tv_shows cmd_id r s =
    (if cmd_id = Commands_ON C then try_command (power_on tv_shows r s)
     else if cmd_id = Commands_OFF C then try_command (power_off s)
     else if cmd_id = Commands_TOGGLE C then try_command (power_toggle tv_shows r s)
     else if cmd_id = Commands_PLAY_PAUSE C then try_command (play_pause tv_shows r s)
     else (NOT_IMPLEMENTED, s))"

section \<open>The setup flow\<close>

text \<open>The nested dictionary literals of the input schema.\<close>

datatype json = Str string | Dict "(string \<times> json) list"

record RequestUserInput =
  title :: "(string \<times> string) list"
  settings :: "json list"

definition DEMO_INPUT_SCHEMA :: RequestUserInput where
  "DEMO_INPUT_SCHEMA =
    \<lparr>title = [(''en'', ''Demo Device Setup'')],
     settings =
       [Dict
          [(''id'', Str ''info''),
           (''label'', Dict [(''en'', Str ''Setup Demo Device'')]),
           (''field'',
            Dict
              [(''label'',
                Dict
                  [(''value'',
                    Dict
                      [(''en'',
                        Str
                          (''Enter an IP address to set up the demo device. '' @
                           ''This is a simulated device for testing the ucapi-framework. '' @
                           ''The IP address doesn't need to be reachable - it's just used '' @
                           ''as a placeholder identifier.''))])])])],
        Dict
          [(''field'', Dict [(''text'', Dict [(''value'', Str ''192.168.1.100'')])]),
           (''id'', Str ''address''),
           (''label'', Dict [(''en'', Str ''IP Address'')])]]\<rparr>"

definition get_manual_entry_form :: RequestUserInput where
  "get_manual_entry_form = DEMO_INPUT_SCHEMA"

datatype IntegrationSetupError = CONNECTION_REFUSED | TIMEOUT

text \<open>What \<^verbatim>\<open>query_device\<close> returns: a configuration, a setup error or the form.\<close>

datatype setup_result =
  Config DemoConfig | SetupError IntegrationSetupError | UserInput RequestUserInput

text \<open>
  \<^verbatim>\<open>str.isspace\<close> on one character. A character of a text is its code point,
  and the type of characters holds the code points below 256. Of these Python counts as
  whitespace: tab, line feed, vertical tab, form feed, carriage return (9 to 13), the
  four separators 28 to 31, the space (32), the next-line control U+0085 and the
  no-break space U+00A0.
\<close>

definition isspace :: "char \<Rightarrow> bool" where
  "isspace c \<longleftrightarrow>
     c \<in> {CHR 0x09, CHR 0x0A, CHR 0x0B, CHR 0x0C, CHR 0x0D,
          CHR 0x1C, CHR 0x1D, CHR 0x1E, CHR 0x1F, CHR 0x20,
          CHR 0x85, CHR 0xA0}"

text \<open>\<^verbatim>\<open>str.strip()\<close>: leading and trailing whitespace removed.\<close>

definition strip :: "string \<Rightarrow> string" where
  "strip s = rev (dropWhile isspace (rev (dropWhile isspace s)))"

text \<open>\<^verbatim>\<open>str.replace(old, new)\<close> for one-character \<open>old\<close> and \<open>new\<close>.\<close>

definition replace :: "char \<Rightarrow> char \<Rightarrow> string \<Rightarrow> string" where
  "replace old new s = map (\<lambda>c. if c = old then new else c) s"

text \<open>
  The first statement of \<^verbatim>\<open>query_device\<close>, the value of
  \<^verbatim>\<open>input_values.get("address", "").strip()\<close>; the form values are strings.
\<close>

definition form_address :: "(string \<rightharpoonup> string) \<Rightarrow> string" where
  "form_address input_values =
     strip (case input_values ''address'' of None \<Rightarrow> [] | Some v \<Rightarrow> v)"

text \<open>
  \<^verbatim>\<open>query_device\<close>. The argument \<open>uuid4\<close> is the text of the freshly generated
  \<^verbatim>\<open>uuid.uuid4()\<close>. Nothing inside the \<^verbatim>\<open>try\<close> block raises, so the three
  handlers are never entered.
\<close>

definition query_device :: "string \<Rightarrow> (string \<rightharpoonup> string) \<Rightarrow> setup_result" where
  "query_device uuid4 input_values =
    (let addr = form_address input_values
     in if addr = [] then UserInput DEMO_INPUT_SCHEMA
        else
          let short_id = take 8 uuid4;
              ident = ''demo_'' @ replace CHR ''.'' CHR ''_'' addr @ ''_'' @ short_id;
              nm = ''Demo ('' @ addr @ '')''
          in Config \<lparr>device_identifier = ident, name = nm, address = addr\<rparr>)"

section \<open>Concrete devices\<close>

text \<open>
  A configuration as the setup flow produces it, and a device built from it that has
  reached a given state and title with its snapshot up to date.
\<close>

definition demo_config :: DemoConfig where
  "demo_config =
    \<lparr>device_identifier = ''demo_192_168_1_100_1b4e28ba'',
     name = ''Demo (192.168.1.100)'',
     address = ''192.168.1.100''\<rparr>"

definition device_at :: "States \<Rightarrow> string \<Rightarrow> DemoDevice" where
  "device_at st t = set_attributes ((init_device demo_config)\<lparr>power_state := st, media_title := t\<rparr>)"

text \<open>
  Command identifiers for the examples, with the values the remote sends for the four
  commands.
\<close>

definition demo_commands :: Commands where
  "demo_commands =
    \<lparr>Commands_ON = ''on'',
     Commands_OFF = ''off'',
     Commands_TOGGLE = ''toggle'',
     Commands_PLAY_PAUSE = ''play_pause''\<rparr>"

section \<open>Selecting a show\<close>

lemma random_choice_in_set: "random_choice r xs = Inr y \<Longrightarrow> y \<in> set xs"
  by (auto simp: random_choice_def split: if_splits)

lemma random_choice_nonempty: "xs \<noteq> [] \<Longrightarrow> \<exists>y. random_choice r xs = Inr y \<and> y \<in> set xs"
  by (simp add: random_choice_def)

text \<open>Every member of a non-empty sequence is a possible outcome of the choice.\<close>

lemma random_choice_range: "xs \<noteq> [] \<Longrightarrow> {y. \<exists>r. random_choice r xs = Inr y} = set xs"
proof (intro set_eqI iffI)
  fix y assume "xs \<noteq> []" and "y \<in> {y. \<exists>r. random_choice r xs = Inr y}"
  then show "y \<in> set xs" by (auto dest: random_choice_in_set)
next
  fix y assume ne: "xs \<noteq> []" and "y \<in> set xs"
  then obtain i where "i < length xs" and "xs ! i = y" by (auto simp: in_set_conv_nth)
  with ne have "random_choice i xs = Inr y" by (simp add: random_choice_def)
  then show "y \<in> {y. \<exists>r. random_choice r xs = Inr y}" by blast
qed

lemma select_random_show_ok:
  assumes "filter (\<lambda>sh. sh \<noteq> media_title s) pool \<noteq> []"
  shows "\<exists>t. select_random_show pool r s = (None, s\<lparr>media_title := t\<rparr>)
           \<and> t \<in> set pool \<and> t \<noteq> media_title s"
proof -
  from random_choice_nonempty [OF assms, of r]
  obtain y where y: "random_choice r (filter (\<lambda>sh. sh \<noteq> media_title s) pool) = Inr y"
    and mem: "y \<in> set (filter (\<lambda>sh. sh \<noteq> media_title s) pool)" by blast
  from y have "select_random_show pool r s = (None, s\<lparr>media_title := y\<rparr>)"
    by (simp add: select_random_show_def)
  with mem show ?thesis by auto
qed

lemma select_random_show_raises:
  "filter (\<lambda>sh. sh \<noteq> media_title s) pool = [] \<Longrightarrow>
     select_random_show pool r s = (Some IndexError, s)"
  by (simp add: select_random_show_def random_choice_def)

lemma TV_SHOWS_available: "filter (\<lambda>sh. sh \<noteq> t) TV_SHOWS \<noteq> []"
proof (cases "t = ''Breaking Bad''")
  case True
  then have "''The Wire'' \<in> set (filter (\<lambda>sh. sh \<noteq> t) TV_SHOWS)"
    by (simp add: TV_SHOWS_def)
  then show ?thesis by (metis empty_iff empty_set)
next
  case False
  then have "''Breaking Bad'' \<in> set (filter (\<lambda>sh. sh \<noteq> t) TV_SHOWS)"
    by (simp add: TV_SHOWS_def)
  then show ?thesis by (metis empty_iff empty_set)
qed

lemma TV_SHOWS_titles_nonempty: "t \<in> set TV_SHOWS \<Longrightarrow> t \<noteq> []"
  by (auto simp: TV_SHOWS_def)

text \<open>On the show pool of the source the selection never raises.\<close>

lemma select_TV_SHOWS:
  "\<exists>t. select_random_show TV_SHOWS r s = (None, s\<lparr>media_title := t\<rparr>)
      \<and> t \<in> set TV_SHOWS \<and> t \<noteq> media_title s"
  by (rule select_random_show_ok [OF TV_SHOWS_available])

text \<open>
  Claim C2. The show pool the device reads is the constant of \<^verbatim>\<open>const.py\<close>: it has
  twenty members, all different, so it has more than one member and the case of a pool
  with a single member does not arise. For every call of \<^verbatim>\<open>_select_random_show\<close>,
  whatever the device state and the random draw, the call returns, and the new title is
  drawn from the pool and differs from the title the device had just before.
\<close>

theorem select_random_show_never_repeats:
  "length TV_SHOWS = 20 \<and> distinct TV_SHOWS
   \<and> (\<exists>t. select_random_show TV_SHOWS r s = (None, s\<lparr>media_title := t\<rparr>)
          \<and> t \<in> set TV_SHOWS \<and> t \<noteq> media_title s)"
proof -
  have "length TV_SHOWS = 20" by (simp add: TV_SHOWS_def)
  moreover have "distinct TV_SHOWS" by (simp add: TV_SHOWS_def)
  moreover note select_TV_SHOWS [of r s]
  ultimately show ?thesis by (intro conjI)
qed

theorem select_random_show_never_repeats_witness:
  "select_random_show TV_SHOWS 17 (device_at PLAYING ''Fargo'')
     = (None, device_at PLAYING ''Fargo''\<lparr>media_title := ''True Detective''\<rparr>)
   \<and> ''True Detective'' \<in> set TV_SHOWS
   \<and> ''True Detective'' \<noteq> media_title (device_at PLAYING ''Fargo'')"
  using select_random_show_never_repeats [of 17 "device_at PLAYING ''Fargo''"]
  by (simp add: select_random_show_def random_choice_def device_at_def set_attributes_def
      init_device_def TV_SHOWS_def)

section \<open>The operations on the show pool of the source\<close>

lemma select_random_show_cases:
  "select_random_show pool r s = (Some IndexError, s)
   \<or> (\<exists>t. select_random_show pool r s = (None, s\<lparr>media_title := t\<rparr>))"
proof (cases "filter (\<lambda>sh. sh \<noteq> media_title s) pool = []")
  case True
  then show ?thesis by (simp add: select_random_show_raises)
next
  case False
  from select_random_show_ok [OF this, of r] show ?thesis by blast
qed

lemma power_on_TV_SHOWS:
  "\<exists>t. t \<in> set TV_SHOWS \<and> t \<noteq> media_title s
      \<and> power_on TV_SHOWS r s = (None, set_attributes (s\<lparr>power_state := ON, media_title := t\<rparr>))"
proof -
  from select_TV_SHOWS [of r "s\<lparr>power_state := ON\<rparr>"] obtain t where
    "select_random_show TV_SHOWS r (s\<lparr>power_state := ON\<rparr>)
       = (None, s\<lparr>power_state := ON, media_title := t\<rparr>)"
    "t \<in> set TV_SHOWS" "t \<noteq> media_title s" by auto
  then show ?thesis
    by (intro exI [of _ t]) (simp add: power_on_def and_then_def)
qed

lemma establish_connection_eq_power_on:
  "establish_connection pool r s = power_on pool r s"
  by (simp add: establish_connection_def power_on_def)

lemma poll_device_TV_SHOWS:
  assumes "power_state s \<in> {ON, PLAYING}"
  shows "\<exists>t. t \<in> set TV_SHOWS \<and> t \<noteq> media_title s
          \<and> poll_device TV_SHOWS r s =
              (None, (set_attributes (s\<lparr>media_title := t\<rparr>))
                 \<lparr>events := events s @ [UPDATE (device_identifier (device_config s)) (power_state s) t]\<rparr>)"
proof -
  from select_TV_SHOWS [of r s] obtain t where
    sel: "select_random_show TV_SHOWS r s = (None, s\<lparr>media_title := t\<rparr>)"
    and t: "t \<in> set TV_SHOWS" "t \<noteq> media_title s" by auto
  from assms sel have "poll_device TV_SHOWS r s =
              (None, (set_attributes (s\<lparr>media_title := t\<rparr>))
                 \<lparr>events := events s @ [UPDATE (device_identifier (device_config s)) (power_state s) t]\<rparr>)"
    by (auto simp: poll_device_def and_then_def emit_state_update_def set_attributes_def)
  with t show ?thesis by blast
qed

lemma play_pause_TV_SHOWS:
  "\<exists>t. t \<in> set TV_SHOWS \<and> t \<noteq> media_title s
      \<and> play_pause TV_SHOWS r s =
          (None, set_attributes
             (s\<lparr>power_state := (if power_state s = PLAYING then PAUSED else PLAYING),
                media_title := t\<rparr>))"
proof (cases "power_state s")
  case OFF
  from select_TV_SHOWS [of r "s\<lparr>power_state := ON\<rparr>"] obtain t where
    "select_random_show TV_SHOWS r (s\<lparr>power_state := ON\<rparr>)
       = (None, s\<lparr>power_state := ON, media_title := t\<rparr>)"
    "t \<in> set TV_SHOWS" "t \<noteq> media_title s" by auto
  with OFF show ?thesis
    by (intro exI [of _ t]) (simp add: play_pause_def power_on_def and_then_def set_attributes_def)
next
  case ON
  from select_TV_SHOWS [of r "s\<lparr>power_state := PLAYING\<rparr>"] obtain t where
    "select_random_show TV_SHOWS r (s\<lparr>power_state := PLAYING\<rparr>)
       = (None, s\<lparr>power_state := PLAYING, media_title := t\<rparr>)"
    "t \<in> set TV_SHOWS" "t \<noteq> media_title s" by auto
  with ON show ?thesis
    by (intro exI [of _ t]) (simp add: play_pause_def and_then_def set_attributes_def)
next
  case PLAYING
  from select_TV_SHOWS [of r "s\<lparr>power_state := PAUSED\<rparr>"] obtain t where
    "select_random_show TV_SHOWS r (s\<lparr>power_state := PAUSED\<rparr>)
       = (None, s\<lparr>power_state := PAUSED, media_title := t\<rparr>)"
    "t \<in> set TV_SHOWS" "t \<noteq> media_title s" by auto
  with PLAYING show ?thesis
    by (intro exI [of _ t]) (simp add: play_pause_def and_then_def set_attributes_def)
next
  case PAUSED
  from select_TV_SHOWS [of r "s\<lparr>power_state := PLAYING\<rparr>"] obtain t where
    "select_random_show TV_SHOWS r (s\<lparr>power_state := PLAYING\<rparr>)
       = (None, s\<lparr>power_state := PLAYING, media_title := t\<rparr>)"
    "t \<in> set TV_SHOWS" "t \<noteq> media_title s" by auto
  with PAUSED show ?thesis
    by (intro exI [of _ t]) (simp add: play_pause_def and_then_def set_attributes_def)
qed

text \<open>What one operation does on the show pool of the source, in three shapes.\<close>

lemma run_operation_TV_SHOWS:
  "run_operation TV_SHOWS opn r s = (None, s) \<and> power_state s \<in> {OFF, PAUSED}
   \<or> run_operation TV_SHOWS opn r s = (None, set_attributes (s\<lparr>power_state := OFF, media_title := []\<rparr>))
   \<or> (\<exists>st t ev. st \<noteq> OFF \<and> t \<in> set TV_SHOWS
         \<and> run_operation TV_SHOWS opn r s
             = (None, (set_attributes (s\<lparr>power_state := st, media_title := t\<rparr>))\<lparr>events := ev\<rparr>))"
  (is "?A \<or> ?B \<or> ?C")
proof -
  have C: "?C" if "st \<noteq> OFF" "t \<in> set TV_SHOWS"
    "run_operation TV_SHOWS opn r s
       = (None, (set_attributes (s\<lparr>power_state := st, media_title := t\<rparr>))\<lparr>events := ev\<rparr>)"
    for st t ev
    apply (rule exI [of _ st])
    apply (rule exI [of _ t])
    apply (rule exI [of _ ev])
    using that by simp
  have same_events: "set_attributes u = (set_attributes u)\<lparr>events := events s\<rparr>"
    if "events u = events s" for u
    using that by (simp add: set_attributes_def)
  have on: ?C if "run_operation TV_SHOWS opn r s = power_on TV_SHOWS r s"
  proof -
    from power_on_TV_SHOWS [of s r] obtain t where t: "t \<in> set TV_SHOWS"
      and p: "power_on TV_SHOWS r s
        = (None, set_attributes (s\<lparr>power_state := ON, media_title := t\<rparr>))"
      by (elim exE conjE)
    have "set_attributes (s\<lparr>power_state := ON, media_title := t\<rparr>)
      = (set_attributes (s\<lparr>power_state := ON, media_title := t\<rparr>))\<lparr>events := events s\<rparr>"
      by (rule same_events) simp
    with p that have "run_operation TV_SHOWS opn r s
       = (None, (set_attributes (s\<lparr>power_state := ON, media_title := t\<rparr>))\<lparr>events := events s\<rparr>)"
      by simp
    with t show ?thesis by (intro C [of ON t "events s"]) simp_all
  qed
  have off: ?B if "run_operation TV_SHOWS opn r s = power_off s"
    using that by (simp add: power_off_def)
  show ?thesis
  proof (cases opn)
    case EstablishConnection
    then have ?C by (intro on) (simp add: establish_connection_eq_power_on)
    then show ?thesis by simp
  next
    case PowerOn
    then have ?C by (intro on) simp
    then show ?thesis by simp
  next
    case PowerOff
    then have ?B by (intro off) simp
    then show ?thesis by simp
  next
    case PowerToggle
    show ?thesis
    proof (cases "power_state s")
      case OFF
      with PowerToggle have ?C by (intro on) (simp add: power_toggle_def)
      then show ?thesis by simp
    next
      case ON
      with PowerToggle have ?B by (intro off) (simp add: power_toggle_def)
      then show ?thesis by simp
    next
      case PLAYING
      with PowerToggle have ?B by (intro off) (simp add: power_toggle_def)
      then show ?thesis by simp
    next
      case PAUSED
      with PowerToggle have ?B by (intro off) (simp add: power_toggle_def)
      then show ?thesis by simp
    qed
  next
    case PlayPause
    let ?st = "if power_state s = PLAYING then PAUSED else PLAYING"
    from play_pause_TV_SHOWS [of s r] obtain t where t: "t \<in> set TV_SHOWS"
      and p: "play_pause TV_SHOWS r s
        = (None, set_attributes (s\<lparr>power_state := ?st, media_title := t\<rparr>))"
      by (elim exE conjE)
    have "set_attributes (s\<lparr>power_state := ?st, media_title := t\<rparr>)
      = (set_attributes (s\<lparr>power_state := ?st, media_title := t\<rparr>))\<lparr>events := events s\<rparr>"
      by (rule same_events) simp
    with p PlayPause have "run_operation TV_SHOWS opn r s
       = (None, (set_attributes (s\<lparr>power_state := ?st, media_title := t\<rparr>))\<lparr>events := events s\<rparr>)"
      by simp
    with t have ?C by (intro C [of ?st t "events s"]) simp_all
    then show ?thesis by simp
  next
    case PollTick
    show ?thesis
    proof (cases "power_state s \<in> {ON, PLAYING}")
      case True
      from poll_device_TV_SHOWS [OF True, of r] obtain t where t: "t \<in> set TV_SHOWS"
        and p: "poll_device TV_SHOWS r s =
              (None, (set_attributes (s\<lparr>media_title := t\<rparr>))
                 \<lparr>events := events s @ [UPDATE (device_identifier (device_config s)) (power_state s) t]\<rparr>)"
        by (elim exE conjE)
      from p PollTick have q: "run_operation TV_SHOWS opn r s =
              (None, (set_attributes (s\<lparr>power_state := power_state s, media_title := t\<rparr>))
                 \<lparr>events := events s @ [UPDATE (device_identifier (device_config s)) (power_state s) t]\<rparr>)"
        by simp
      from True have "power_state s \<noteq> OFF" by auto
      from this t q have ?C by (rule C)
      then show ?thesis by simp
    next
      case False
      then have "power_state s \<in> {OFF, PAUSED}" by (cases "power_state s") simp_all
      with PollTick False have ?A by (simp add: poll_device_def)
      then show ?thesis by simp
    qed
  qed
qed

section \<open>Play and pause\<close>

text \<open>
  Claim C1. The comment in \<^verbatim>\<open>play_pause\<close> says that a new show is picked when
  resuming, and the claim asks that a call in the state PLAYING ends PAUSED with the
  title unchanged. The call of \<^verbatim>\<open>_select_random_show\<close> stands after the
  \<^verbatim>\<open>if\<close>/\<^verbatim>\<open>else\<close> of the toggle and not inside its \<^verbatim>\<open>else\<close>, so the code
  selects on the way into PAUSED too: a device that is PLAYING "Fargo", with the draw 0,
  ends PAUSED with the title "Breaking Bad".
\<close>

theorem play_pause_from_playing_changes_title:
  "power_state (device_at PLAYING ''Fargo'') = PLAYING
   \<and> media_title (device_at PLAYING ''Fargo'') = ''Fargo''
   \<and> play_pause TV_SHOWS 0 (device_at PLAYING ''Fargo'')
       = (None, device_at PAUSED ''Breaking Bad'')"
  by (simp add: play_pause_def and_then_def select_random_show_def random_choice_def
      device_at_def set_attributes_def init_device_def TV_SHOWS_def)

text \<open>
  Claim C8. For every call of \<^verbatim>\<open>play_pause\<close> when the power state is OFF, on
  the show pool of the source: the call returns with the power state PLAYING and a
  non-empty title drawn from the pool; it is reached by running \<^verbatim>\<open>power_on\<close>,
  which returns, and then overriding the state to PLAYING.
\<close>

theorem play_pause_from_off:
  assumes "power_state s = OFF"
  shows "\<exists>s1 t. power_on TV_SHOWS r s = (None, s1)
           \<and> play_pause TV_SHOWS r s = (None, set_attributes (s1\<lparr>power_state := PLAYING\<rparr>))
           \<and> power_state (snd (play_pause TV_SHOWS r s)) = PLAYING
           \<and> media_title (snd (play_pause TV_SHOWS r s)) = t
           \<and> t \<noteq> [] \<and> t \<in> set TV_SHOWS"
proof -
  from select_TV_SHOWS [of r "s\<lparr>power_state := ON\<rparr>"] obtain t where
    sel: "select_random_show TV_SHOWS r (s\<lparr>power_state := ON\<rparr>)
       = (None, s\<lparr>power_state := ON, media_title := t\<rparr>)"
    and t: "t \<in> set TV_SHOWS" by auto
  from t have ne: "t \<noteq> []" by (rule TV_SHOWS_titles_nonempty)
  let ?s1 = "set_attributes (s\<lparr>power_state := ON, media_title := t\<rparr>)"
  from sel have on: "power_on TV_SHOWS r s = (None, ?s1)"
    by (simp add: power_on_def and_then_def)
  with assms have pp: "play_pause TV_SHOWS r s = (None, set_attributes (?s1\<lparr>power_state := PLAYING\<rparr>))"
    by (simp add: play_pause_def and_then_def)
  have "power_state (set_attributes (?s1\<lparr>power_state := PLAYING\<rparr>)) = PLAYING"
    "media_title (set_attributes (?s1\<lparr>power_state := PLAYING\<rparr>)) = t"
    by (simp_all add: set_attributes_def)
  with on pp t ne show ?thesis by simp
qed

theorem play_pause_from_off_witness:
  "power_state (init_device demo_config) = OFF
   \<and> play_pause TV_SHOWS 4 (init_device demo_config) = (None, device_at PLAYING ''Mad Men'')"
proof -
  have off: "power_state (init_device demo_config) = OFF" by (simp add: init_device_def)
  from play_pause_from_off [OF off, of 4] off show ?thesis
    by (simp add: play_pause_def power_on_def and_then_def select_random_show_def random_choice_def
      device_at_def set_attributes_def init_device_def TV_SHOWS_def)
qed

section \<open>Polling\<close>

text \<open>
  Claim C4. For every call of \<^verbatim>\<open>poll_device\<close>: when the power state is OFF or
  PAUSED the call returns and the device, its emitted events included, is exactly as
  before (whatever the pool); when the power state is ON or PLAYING, on the show pool
  of the source, the call returns, the title is a pool member different from the
  previous title, the snapshot shows it, and exactly one update event, carrying the
  state and the new title, is appended to the emitted events.
\<close>

theorem poll_device_effect:
  "(power_state s \<in> {OFF, PAUSED} \<longrightarrow> poll_device tv_shows r s = (None, s))
   \<and> (power_state s \<in> {ON, PLAYING} \<longrightarrow>
       (\<exists>t. t \<in> set TV_SHOWS \<and> t \<noteq> media_title s
          \<and> poll_device TV_SHOWS r s =
              (None, (set_attributes (s\<lparr>media_title := t\<rparr>))
                 \<lparr>events := events s @ [UPDATE (device_identifier (device_config s)) (power_state s) t]\<rparr>)))"
proof (intro conjI impI)
  assume "power_state s \<in> {OFF, PAUSED}"
  then show "poll_device tv_shows r s = (None, s)" by (auto simp: poll_device_def)
next
  assume "power_state s \<in> {ON, PLAYING}"
  then show "\<exists>t. t \<in> set TV_SHOWS \<and> t \<noteq> media_title s
          \<and> poll_device TV_SHOWS r s =
              (None, (set_attributes (s\<lparr>media_title := t\<rparr>))
                 \<lparr>events := events s @ [UPDATE (device_identifier (device_config s)) (power_state s) t]\<rparr>)"
    by (rule poll_device_TV_SHOWS)
qed

theorem poll_device_effect_witness:
  "power_state (device_at PAUSED ''Fargo'') \<in> {OFF, PAUSED}
   \<and> poll_device TV_SHOWS 3 (device_at PAUSED ''Fargo'') = (None, device_at PAUSED ''Fargo'')
   \<and> power_state (device_at ON ''Fargo'') \<in> {ON, PLAYING}
   \<and> poll_device TV_SHOWS 3 (device_at ON ''Fargo'') =
       (None, (device_at ON ''The Sopranos'')
          \<lparr>events := [UPDATE ''demo_192_168_1_100_1b4e28ba'' ON ''The Sopranos'']\<rparr>)"
proof -
  have p: "power_state (device_at PAUSED ''Fargo'') \<in> {OFF, PAUSED}"
    and q: "power_state (device_at ON ''Fargo'') \<in> {ON, PLAYING}"
    by (simp_all add: device_at_def set_attributes_def init_device_def)
  from poll_device_effect [of "device_at PAUSED ''Fargo''" TV_SHOWS 3] p
    poll_device_effect [of "device_at ON ''Fargo''" TV_SHOWS 3] q
  show ?thesis
    by (simp add: poll_device_def and_then_def select_random_show_def random_choice_def
      emit_state_update_def demo_config_def
      device_at_def set_attributes_def init_device_def TV_SHOWS_def)
qed

section \<open>Invariants of the device\<close>

lemma run_operation_returns: "fst (run_operation TV_SHOWS opn r s) = None"
  using run_operation_TV_SHOWS [of opn r s] by (elim disjE exE conjE) simp_all

lemma title_empty_iff_off_set:
  "st \<noteq> OFF \<Longrightarrow> t \<noteq> [] \<Longrightarrow>
     title_empty_iff_off ((set_attributes (s\<lparr>power_state := st, media_title := t\<rparr>))\<lparr>events := ev\<rparr>)"
  "title_empty_iff_off (set_attributes (s\<lparr>power_state := OFF, media_title := []\<rparr>))"
  by (simp_all add: title_empty_iff_off_def set_attributes_def)

lemma snapshot_in_sync_set:
  "snapshot_in_sync ((set_attributes u)\<lparr>events := ev\<rparr>)"
  "snapshot_in_sync (set_attributes u)"
  by (simp_all add: snapshot_in_sync_def set_attributes_def)

lemma run_operation_title_empty_iff_off:
  assumes "title_empty_iff_off s"
  shows "title_empty_iff_off (snd (run_operation TV_SHOWS opn r s))"
proof -
  from run_operation_TV_SHOWS [of opn r s] consider
      (same) "run_operation TV_SHOWS opn r s = (None, s)"
    | (off) "run_operation TV_SHOWS opn r s
               = (None, set_attributes (s\<lparr>power_state := OFF, media_title := []\<rparr>))"
    | (on) st t ev where "st \<noteq> OFF" "t \<in> set TV_SHOWS"
        "run_operation TV_SHOWS opn r s
           = (None, (set_attributes (s\<lparr>power_state := st, media_title := t\<rparr>))\<lparr>events := ev\<rparr>)"
    by blast
  then show ?thesis
  proof cases
    case same
    with assms show ?thesis by simp
  next
    case off
    then show ?thesis by (simp add: title_empty_iff_off_set(2))
  next
    case on
    from on(2) have "t \<noteq> []" by (rule TV_SHOWS_titles_nonempty)
    with on(1,3) show ?thesis by (simp add: title_empty_iff_off_set(1))
  qed
qed

lemma run_operation_snapshot_in_sync:
  assumes "snapshot_in_sync s"
  shows "snapshot_in_sync (snd (run_operation TV_SHOWS opn r s))"
proof -
  from run_operation_TV_SHOWS [of opn r s] consider
      (same) "run_operation TV_SHOWS opn r s = (None, s)"
    | (off) "run_operation TV_SHOWS opn r s
               = (None, set_attributes (s\<lparr>power_state := OFF, media_title := []\<rparr>))"
    | (on) st t ev where
        "run_operation TV_SHOWS opn r s
           = (None, (set_attributes (s\<lparr>power_state := st, media_title := t\<rparr>))\<lparr>events := ev\<rparr>)"
    by blast
  then show ?thesis
  proof cases
    case same
    with assms show ?thesis by simp
  next
    case off
    then show ?thesis by (simp add: snapshot_in_sync_set(2))
  next
    case on
    then show ?thesis by (simp add: snapshot_in_sync_set(1))
  qed
qed

lemma run_operations_title_empty_iff_off:
  "title_empty_iff_off s \<Longrightarrow> title_empty_iff_off (run_operations TV_SHOWS ops s)"
proof (induction ops arbitrary: s)
  case Nil
  then show ?case by simp
next
  case (Cons x ops)
  obtain opn r where x: "x = (opn, r)" by (cases x)
  from Cons.prems have "title_empty_iff_off (snd (run_operation TV_SHOWS opn r s))"
    by (rule run_operation_title_empty_iff_off)
  then have "title_empty_iff_off (run_operations TV_SHOWS ops (snd (run_operation TV_SHOWS opn r s)))"
    by (rule Cons.IH)
  with x show ?case by simp
qed

lemma run_operations_snapshot_in_sync:
  "snapshot_in_sync s \<Longrightarrow> snapshot_in_sync (run_operations TV_SHOWS ops s)"
proof (induction ops arbitrary: s)
  case Nil
  then show ?case by simp
next
  case (Cons x ops)
  obtain opn r where x: "x = (opn, r)" by (cases x)
  from Cons.prems have "snapshot_in_sync (snd (run_operation TV_SHOWS opn r s))"
    by (rule run_operation_snapshot_in_sync)
  then have "snapshot_in_sync (run_operations TV_SHOWS ops (snd (run_operation TV_SHOWS opn r s)))"
    by (rule Cons.IH)
  with x show ?case by simp
qed

lemma init_device_invariants:
  "title_empty_iff_off (init_device cfg)" "snapshot_in_sync (init_device cfg)"
  by (simp_all add: title_empty_iff_off_def snapshot_in_sync_def init_device_def)

text \<open>
  Claim C3. Starting from a freshly constructed device (OFF, empty title), after every
  sequence of the operations \<^verbatim>\<open>establish_connection\<close>, \<^verbatim>\<open>poll_device\<close>,
  \<^verbatim>\<open>power_on\<close>, \<^verbatim>\<open>power_off\<close>, \<^verbatim>\<open>power_toggle\<close> and
  \<^verbatim>\<open>play_pause\<close> on the show pool of the source, whatever the random draws, the
  title is empty if and only if the power state is OFF.
\<close>

theorem media_title_empty_iff_off:
  "media_title (run_operations TV_SHOWS ops (init_device cfg)) = []
     \<longleftrightarrow> power_state (run_operations TV_SHOWS ops (init_device cfg)) = OFF"
  using run_operations_title_empty_iff_off [OF init_device_invariants(1), of ops cfg]
  by (simp add: title_empty_iff_off_def)

theorem media_title_empty_iff_off_witness:
  "power_state (run_operations TV_SHOWS [(EstablishConnection, 3), (PlayPause, 5)] (init_device demo_config)) = PLAYING
   \<and> media_title (run_operations TV_SHOWS [(EstablishConnection, 3), (PlayPause, 5)] (init_device demo_config)) = ''Friends''
   \<and> power_state (run_operations TV_SHOWS [(EstablishConnection, 3), (PlayPause, 5), (PowerToggle, 1)] (init_device demo_config)) = OFF
   \<and> media_title (run_operations TV_SHOWS [(EstablishConnection, 3), (PlayPause, 5), (PowerToggle, 1)] (init_device demo_config)) = []"
  using media_title_empty_iff_off [of "[(EstablishConnection, 3), (PlayPause, 5)]" demo_config]
    media_title_empty_iff_off [of "[(EstablishConnection, 3), (PlayPause, 5), (PowerToggle, 1)]" demo_config]
  by (simp add: establish_connection_def play_pause_def power_toggle_def power_off_def
      and_then_def select_random_show_def random_choice_def set_attributes_def init_device_def
      TV_SHOWS_def)

text \<open>
  Claim C9. At every state a device reaches from its construction by these operations,
  each of the operations returns, and when it has returned the attribute snapshot
  equals the internal state: \<^verbatim>\<open>attributes.STATE\<close> is the power state and
  \<^verbatim>\<open>attributes.MEDIA_TITLE\<close> is the title.
\<close>

theorem snapshot_equals_state_after_operation:
  "\<exists>s'. run_operation TV_SHOWS opn r (run_operations TV_SHOWS ops (init_device cfg)) = (None, s')
      \<and> STATE (attributes s') = power_state s' \<and> MEDIA_TITLE (attributes s') = media_title s'"
proof -
  let ?s = "run_operations TV_SHOWS ops (init_device cfg)"
  have "snapshot_in_sync ?s"
    by (rule run_operations_snapshot_in_sync [OF init_device_invariants(2)])
  then have "snapshot_in_sync (snd (run_operation TV_SHOWS opn r ?s))"
    by (rule run_operation_snapshot_in_sync)
  moreover have "fst (run_operation TV_SHOWS opn r ?s) = None" by (rule run_operation_returns)
  ultimately show ?thesis by (cases "run_operation TV_SHOWS opn r ?s") (simp add: snapshot_in_sync_def)
qed

theorem snapshot_equals_state_after_operation_witness:
  "run_operation TV_SHOWS PollTick 7 (run_operations TV_SHOWS [(EstablishConnection, 3)] (init_device demo_config))
     = (None, (device_at ON ''Stranger Things'')\<lparr>events := [UPDATE ''demo_192_168_1_100_1b4e28ba'' ON ''Stranger Things'']\<rparr>)"
  using snapshot_equals_state_after_operation [of PollTick 7 "[(EstablishConnection, 3)]" demo_config]
  by (simp add: establish_connection_def poll_device_def and_then_def select_random_show_def
      random_choice_def emit_state_update_def set_attributes_def init_device_def TV_SHOWS_def
      demo_config_def device_at_def)

lemma run_operation_image_url:
  "MEDIA_IMAGE_URL (attributes (snd (run_operation pool opn r s))) = MEDIA_IMAGE_URL (attributes s)"
proof -
  have sel: "MEDIA_IMAGE_URL (attributes (snd (and_then (select_random_show pool r u) f)))
      = MEDIA_IMAGE_URL (attributes u)"
    if "\<And>u'. MEDIA_IMAGE_URL (attributes (snd (f u'))) = MEDIA_IMAGE_URL (attributes u')" for u f
    using select_random_show_cases [of pool r u] that
    by (auto simp: and_then_def)
  have on: "MEDIA_IMAGE_URL (attributes (snd (power_on pool r u))) = MEDIA_IMAGE_URL (attributes u)" for u
    unfolding power_on_def by (subst sel) (simp_all add: set_attributes_def)
  have off: "MEDIA_IMAGE_URL (attributes (snd (power_off u))) = MEDIA_IMAGE_URL (attributes u)" for u
    by (simp add: power_off_def set_attributes_def)
  show ?thesis
  proof (cases opn)
    case EstablishConnection
    then show ?thesis by (simp add: establish_connection_eq_power_on on)
  next
    case PollTick
    have "MEDIA_IMAGE_URL (attributes (snd (poll_device pool r s))) = MEDIA_IMAGE_URL (attributes s)"
      unfolding poll_device_def
      by (cases "power_state s \<in> {ON, PLAYING}")
         (simp_all add: sel set_attributes_def emit_state_update_def del: insert_iff)
    with PollTick show ?thesis by simp
  next
    case PowerOn
    then show ?thesis by (simp add: on)
  next
    case PowerOff
    then show ?thesis by (simp add: off)
  next
    case PowerToggle
    then show ?thesis by (simp add: power_toggle_def on off)
  next
    case PlayPause
    have inner: "MEDIA_IMAGE_URL (attributes (snd (and_then (power_on pool r s) (\<lambda>s1. (None, s1\<lparr>power_state := PLAYING\<rparr>)))))
       = MEDIA_IMAGE_URL (attributes s)"
      using on [of s] by (cases "power_on pool r s") (auto simp: and_then_def split: option.splits)
    have sel0: "MEDIA_IMAGE_URL (attributes (snd (select_random_show pool r u))) = MEDIA_IMAGE_URL (attributes u)" for u
      using select_random_show_cases [of pool r u] by auto
    have fin: "MEDIA_IMAGE_URL (attributes (snd (and_then m (\<lambda>s1. (None, set_attributes s1)))))
        = MEDIA_IMAGE_URL (attributes (snd m))" for m
      by (cases m) (auto simp: and_then_def set_attributes_def split: option.splits)
    have "MEDIA_IMAGE_URL (attributes (snd (play_pause pool r s))) = MEDIA_IMAGE_URL (attributes s)"
      unfolding play_pause_def fin
      by (cases "power_state s") (simp_all add: inner sel0)
    with PlayPause show ?thesis by simp
  qed
qed

text \<open>
  Claim C10. The attribute \<^verbatim>\<open>MEDIA_IMAGE_URL\<close> is set at construction and no
  operation modifies it: after every sequence of operations, on any pool and also when
  operations raise, it has its initial value.
\<close>

theorem media_image_url_never_modified:
  "MEDIA_IMAGE_URL (attributes (run_operations pool ops (init_device cfg)))
     = MEDIA_IMAGE_URL (attributes (init_device cfg))
   \<and> MEDIA_IMAGE_URL (attributes (init_device cfg))
     = ''https://avatars.githubusercontent.com/u/102359576?s=200&v=4''"
proof -
  have "MEDIA_IMAGE_URL (attributes (run_operations pool ops s)) = MEDIA_IMAGE_URL (attributes s)" for s
    by (induction ops arbitrary: s) (auto simp: run_operation_image_url)
  then show ?thesis by (simp add: init_device_def)
qed

theorem media_image_url_never_modified_witness:
  "MEDIA_IMAGE_URL (attributes (run_operations [] [(PowerOn, 0), (PlayPause, 1), (PollTick, 2)] (init_device demo_config)))
     = ''https://avatars.githubusercontent.com/u/102359576?s=200&v=4''"
  using media_image_url_never_modified [of "[]" "[(PowerOn, 0), (PlayPause, 1), (PollTick, 2)]" demo_config]
  by simp

section \<open>Properties of the command dispatcher\<close>

text \<open>
  Claim C5. For every command identifier other than ON, OFF, TOGGLE and PLAY_PAUSE,
  \<^verbatim>\<open>handle_command\<close> returns NOT_IMPLEMENTED and leaves the device (power state,
  title, attributes, emitted events) exactly as it was.
\<close>

theorem handle_command_unknown:
  assumes "cmd_id \<notin> {Commands_ON C, Commands_OFF C, Commands_TOGGLE C, Commands_PLAY_PAUSE C}"
  shows "handle_command C tv_shows cmd_id r s = (NOT_IMPLEMENTED, s)"
  using assms by (simp add: handle_command_def)

theorem handle_command_unknown_witness:
  "''stop'' \<notin> {Commands_ON demo_commands, Commands_OFF demo_commands,
       Commands_TOGGLE demo_commands, Commands_PLAY_PAUSE demo_commands}
   \<and> handle_command demo_commands TV_SHOWS ''stop'' 0 (device_at PLAYING ''Fargo'')
        = (NOT_IMPLEMENTED, device_at PLAYING ''Fargo'')"
proof -
  have h: "''stop'' \<notin> {Commands_ON demo_commands, Commands_OFF demo_commands,
       Commands_TOGGLE demo_commands, Commands_PLAY_PAUSE demo_commands}"
    by (simp add: demo_commands_def)
  from handle_command_unknown [OF h, of TV_SHOWS 0 "device_at PLAYING ''Fargo''"] h
  show ?thesis by simp
qed

text \<open>
  Claim C6. For each of the four recognized commands, with \<open>m\<close> the outcome of the
  device operation it dispatches to (ON to \<^verbatim>\<open>power_on\<close>, OFF to
  \<^verbatim>\<open>power_off\<close>, TOGGLE to \<^verbatim>\<open>power_toggle\<close>, PLAY_PAUSE to
  \<^verbatim>\<open>play_pause\<close>): if the operation completes, the dispatcher returns OK; if it
  raises, the dispatcher returns BAD_REQUEST, so the exception does not reach the
  caller; in both cases the device is as the operation left it.
\<close>

theorem handle_command_recognized:
  assumes "distinct [Commands_ON C, Commands_OFF C, Commands_TOGGLE C, Commands_PLAY_PAUSE C]"
    and "(cmd_id, m) \<in> {(Commands_ON C, power_on tv_shows r s),
                         (Commands_OFF C, power_off s),
                         (Commands_TOGGLE C, power_toggle tv_shows r s),
                         (Commands_PLAY_PAUSE C, play_pause tv_shows r s)}"
  shows "(fst m = None \<longrightarrow> handle_command C tv_shows cmd_id r s = (OK, snd m))
       \<and> (fst m \<noteq> None \<longrightarrow> handle_command C tv_shows cmd_id r s = (BAD_REQUEST, snd m))"
proof -
  have tc: "(fst m = None \<longrightarrow> try_command m = (OK, snd m))
       \<and> (fst m \<noteq> None \<longrightarrow> try_command m = (BAD_REQUEST, snd m))"
    by (cases m) (auto simp: try_command_def)
  from assms have "handle_command C tv_shows cmd_id r s = try_command m"
    by (auto simp: handle_command_def)
  with tc show ?thesis by simp
qed

theorem handle_command_recognized_witness:
  "handle_command demo_commands TV_SHOWS ''play_pause'' 0 (device_at PLAYING ''Fargo'')
      = (OK, device_at PAUSED ''Breaking Bad'')
   \<and> handle_command demo_commands [] ''on'' 0 (device_at OFF [])
      = (BAD_REQUEST, (device_at OFF [])\<lparr>power_state := ON\<rparr>)"
proof -
  have d: "distinct [Commands_ON demo_commands, Commands_OFF demo_commands,
      Commands_TOGGLE demo_commands, Commands_PLAY_PAUSE demo_commands]"
    by (simp add: demo_commands_def)
  have a: "(''play_pause'', play_pause TV_SHOWS 0 (device_at PLAYING ''Fargo''))
     \<in> {(Commands_ON demo_commands, power_on TV_SHOWS 0 (device_at PLAYING ''Fargo'')),
         (Commands_OFF demo_commands, power_off (device_at PLAYING ''Fargo'')),
         (Commands_TOGGLE demo_commands, power_toggle TV_SHOWS 0 (device_at PLAYING ''Fargo'')),
         (Commands_PLAY_PAUSE demo_commands, play_pause TV_SHOWS 0 (device_at PLAYING ''Fargo''))}"
    by (simp add: demo_commands_def)
  have b: "(''on'', power_on [] 0 (device_at OFF []))
     \<in> {(Commands_ON demo_commands, power_on [] 0 (device_at OFF [])),
         (Commands_OFF demo_commands, power_off (device_at OFF [])),
         (Commands_TOGGLE demo_commands, power_toggle [] 0 (device_at OFF [])),
         (Commands_PLAY_PAUSE demo_commands, play_pause [] 0 (device_at OFF []))}"
    by (simp add: demo_commands_def)
  have pa: "play_pause TV_SHOWS 0 (device_at PLAYING ''Fargo'') = (None, device_at PAUSED ''Breaking Bad'')"
    by (simp add: play_pause_def and_then_def select_random_show_def random_choice_def
      device_at_def set_attributes_def init_device_def TV_SHOWS_def)
  have pb: "power_on [] 0 (device_at OFF []) = (Some IndexError, (device_at OFF [])\<lparr>power_state := ON\<rparr>)"
    by (simp add: power_on_def and_then_def select_random_show_def random_choice_def)
  from handle_command_recognized [OF d a] handle_command_recognized [OF d b] pa pb
  show ?thesis by simp
qed

section \<open>Properties of the setup flow\<close>

text \<open>
  Claim C7 (as stated, refuted in its last part). Two calls with the same address
  whose generated UUIDs differ but agree in their first eight characters return the
  same configuration, with the same identifier.
\<close>

theorem query_device_same_token_counterexample:
  "form_address [''address'' \<mapsto> ''192.168.1.100''] = ''192.168.1.100''
   \<and> query_device ''1b4e28ba-2fa1-41d2-883f-0016d3cca427'' [''address'' \<mapsto> ''192.168.1.100'']
       = Config demo_config
   \<and> query_device ''1b4e28ba-9c5d-4e6f-8a7b-123456789abc'' [''address'' \<mapsto> ''192.168.1.100'']
       = Config demo_config"
  by (simp add: query_device_def form_address_def strip_def isspace_def replace_def demo_config_def)

lemma query_device_empty:
  "form_address input_values = [] \<Longrightarrow> query_device uuid4 input_values = UserInput DEMO_INPUT_SCHEMA"
  by (simp add: query_device_def)

lemma query_device_config:
  "form_address input_values \<noteq> [] \<Longrightarrow>
     query_device uuid4 input_values =
       Config \<lparr>device_identifier =
                 ''demo_'' @ replace CHR ''.'' CHR ''_'' (form_address input_values) @ ''_'' @ take 8 uuid4,
               name = ''Demo ('' @ form_address input_values @ '')'',
               address = form_address input_values\<rparr>"
  by (simp add: query_device_def Let_def)

text \<open>
  Claim C7 (amended). For every input to \<^verbatim>\<open>query_device\<close> whose trimmed address
  is empty, the setup form is returned unchanged. For every non-empty trimmed address a
  configuration is returned whose identifier is \<^verbatim>\<open>demo_\<close>, the address with dots
  replaced by underscores, an underscore and the first eight characters of the generated
  UUID, and whose address is the trimmed address; the identifiers of two calls with the
  same address differ exactly when those eight characters of their two UUIDs differ.
\<close>

theorem query_device_result:
  "(form_address input_values = [] \<longrightarrow>
      query_device u1 input_values = UserInput get_manual_entry_form)
   \<and> (form_address input_values \<noteq> [] \<longrightarrow>
        (\<exists>cfg1 cfg2.
            query_device u1 input_values = Config cfg1
          \<and> query_device u2 input_values = Config cfg2
          \<and> device_identifier cfg1
               = ''demo_'' @ replace CHR ''.'' CHR ''_'' (form_address input_values)
                   @ ''_'' @ take 8 u1
          \<and> address cfg1 = form_address input_values
          \<and> (device_identifier cfg1 \<noteq> device_identifier cfg2 \<longleftrightarrow> take 8 u1 \<noteq> take 8 u2)))"
proof (intro conjI impI)
  assume "form_address input_values = []"
  then show "query_device u1 input_values = UserInput get_manual_entry_form"
    by (simp add: query_device_empty get_manual_entry_form_def)
next
  assume ne: "form_address input_values \<noteq> []"
  let ?n = "replace CHR ''.'' CHR ''_'' (form_address input_values)"
  let ?c = "\<lambda>u. \<lparr>device_identifier = ''demo_'' @ ?n @ ''_'' @ take 8 u,
               name = ''Demo ('' @ form_address input_values @ '')'',
               address = form_address input_values\<rparr>"
  have q: "query_device u input_values = Config (?c u)" for u
    using ne by (rule query_device_config)
  have "query_device u1 input_values = Config (?c u1)
      \<and> query_device u2 input_values = Config (?c u2)
      \<and> device_identifier (?c u1) = ''demo_'' @ ?n @ ''_'' @ take 8 u1
      \<and> address (?c u1) = form_address input_values
      \<and> (device_identifier (?c u1) \<noteq> device_identifier (?c u2) \<longleftrightarrow> take 8 u1 \<noteq> take 8 u2)"
    by (simp add: q)
  then show "\<exists>cfg1 cfg2.
            query_device u1 input_values = Config cfg1
          \<and> query_device u2 input_values = Config cfg2
          \<and> device_identifier cfg1 = ''demo_'' @ ?n @ ''_'' @ take 8 u1
          \<and> address cfg1 = form_address input_values
          \<and> (device_identifier cfg1 \<noteq> device_identifier cfg2 \<longleftrightarrow> take 8 u1 \<noteq> take 8 u2)"
    by (intro exI)
qed

theorem query_device_result_witness:
  "form_address [''address'' \<mapsto> [CHR '' '', CHR 0x09, CHR 0xA0]] = []
   \<and> query_device ''1b4e28ba-2fa1-41d2-883f-0016d3cca427'' [''address'' \<mapsto> [CHR '' '', CHR 0x09, CHR 0xA0]]
        = UserInput get_manual_entry_form
   \<and> form_address [''address'' \<mapsto> ''  192.168.1.100 ''] = ''192.168.1.100''
   \<and> query_device ''1b4e28ba-2fa1-41d2-883f-0016d3cca427'' [''address'' \<mapsto> ''  192.168.1.100 '']
        = Config demo_config
   \<and> query_device ''7c9e6679-7425-40de-944b-e07fc1f90ae7'' [''address'' \<mapsto> ''  192.168.1.100 '']
        = Config (demo_config\<lparr>device_identifier := ''demo_192_168_1_100_7c9e6679''\<rparr>)"
proof -
  have e: "form_address [''address'' \<mapsto> [CHR '' '', CHR 0x09, CHR 0xA0]] = []"
    by (simp add: form_address_def strip_def isspace_def)
  have n: "form_address [''address'' \<mapsto> ''  192.168.1.100 ''] = ''192.168.1.100''"
    by (simp add: form_address_def strip_def isspace_def)
  from query_device_result [of "[''address'' \<mapsto> [CHR '' '', CHR 0x09, CHR 0xA0]]" "''1b4e28ba-2fa1-41d2-883f-0016d3cca427''"
      "''7c9e6679-7425-40de-944b-e07fc1f90ae7''"] e
    query_device_result [of "[''address'' \<mapsto> ''  192.168.1.100 '']"
      "''1b4e28ba-2fa1-41d2-883f-0016d3cca427''" "''7c9e6679-7425-40de-944b-e07fc1f90ae7''"] n
  show ?thesis
    by (simp add: query_device_def replace_def demo_config_def get_manual_entry_form_def)
qed

end
